theory Spec2Isabelle
  imports Complex_Main
begin

section \<open>NiftyBot backtest simulator (backtest.py)\<close>

text \<open>
  The development embeds \<^verbatim>\<open>backtest.py\<close>: signal normalisation, the next-bar
  execution loop, the end-of-series force-close, the summary statistics and the
  multi-ticker driver \<^verbatim>\<open>backtest_all\<close>.

  Conventions of the embedding.
  \<^item> Python floats are modelled as \<^typ>\<open>real\<close>; a NaN cell (also the result of
    \<^verbatim>\<open>pd.to_numeric(..., errors="coerce")\<close> on a non-numeric cell) is \<open>None\<close>.
    Infinite floats are not modelled.
  \<^item> Timestamps of the index are integers (an index that converts to timestamps, none
    of them missing); \<^verbatim>\<open>pd.NaT\<close> in a trade record is \<open>None\<close>.
  \<^item> \<^verbatim>\<open>sort_index\<close> is a stable sort by the timestamp.
  \<^item> Strings are ASCII.
  \<^item> Every Python exception the code can raise is a value \<open>Inl e\<close>.
\<close>

subsection \<open>Data model\<close>

datatype signal = BUY | SELL | HOLD

text \<open>A raw cell of the \<^verbatim>\<open>Signal\<close> column: missing (None/NaN), an integer, a float or a string.\<close>

datatype sigval = Missing | IntV int | FloatV real | StrV string

record bar =
  Date :: int
  Open :: "real option"
  Close :: "real option"
  Signal :: sigval

text \<open>A DataFrame: its rows and which of the three columns it has.  The cell of a column
  the frame does not have is never read (\<^verbatim>\<open>row.get(col)\<close> gives None).\<close>

record frame =
  rows :: "bar list"
  has_Open :: bool
  has_Close :: bool
  has_Signal :: bool

record trade =
  Entry_Date :: int
  Entry_Price :: real
  Exit_Date :: "int option"
  Exit_Price :: "real option"
  Qty :: real
  PnL :: "real option"

record summary =
  Final_Capital :: real
  Total_Trades :: nat
  Wins :: nat
  Win_Ratio :: real
  Total_PnL :: real
  Return_pct :: real

record state =
  trades :: "trade list"
  in_position :: bool
  entry_price :: "real option"
  entry_qty :: "real option"
  capital :: real

datatype error = ZeroDivisionError | TypeError | IndexError

subsection \<open>Signal normalisation\<close>

text \<open>\<^verbatim>\<open>int(val)\<close> on a float truncates toward zero.\<close>

definition py_int :: "real \<Rightarrow> int" where
  "py_int x = (if 0 \<le> x then \<lfloor>x\<rfloor> else \<lceil>x\<rceil>)"

text \<open>\<^verbatim>\<open>str.strip()\<close> and \<^verbatim>\<open>str.upper()\<close> on ASCII text: the whitespace characters are
  codes 9 to 13, 28 to 31 and 32; the letters a to z are raised by 32 positions.\<close>

definition is_space :: "char \<Rightarrow> bool" where
  "is_space c = (let n = (of_char c :: nat) in (9 \<le> n \<and> n \<le> 13) \<or> (28 \<le> n \<and> n \<le> 32))"

definition strip :: "string \<Rightarrow> string" where
  "strip s = rev (dropWhile is_space (rev (dropWhile is_space s)))"

definition upper_char :: "char \<Rightarrow> char" where
  "upper_char c = (let n = (of_char c :: nat) in if 97 \<le> n \<and> n \<le> 122 then char_of (n - 32) else c)"

definition upper :: "string \<Rightarrow> string" where
  "upper s = map upper_char s"

fun normalize_signal :: "sigval \<Rightarrow> signal" where
  "normalize_signal Missing = HOLD"
| "normalize_signal (IntV n) = (if n = 1 then BUY else if n = - 1 then SELL else HOLD)"
| "normalize_signal (FloatV x) =
     (let v = py_int x in if v = 1 then BUY else if v = - 1 then SELL else HOLD)"
| "normalize_signal (StrV val) =
     (let s = upper (strip val)
      in if s \<in> {''BUY'', ''B'', ''1''} then BUY
         else if s \<in> {''SELL'', ''S'', ''-1''} then SELL
         else HOLD)"

subsection \<open>Index handling\<close>

text \<open>\<^verbatim>\<open>_ensure_datetime_index\<close>: the frame is sorted ascending by its index.\<close>

definition ensure_datetime_index :: "frame \<Rightarrow> frame" where
  "ensure_datetime_index df = df\<lparr>rows := sort_key Date (rows df)\<rparr>"

subsection \<open>Arithmetic that can raise\<close>

definition py_div :: "real \<Rightarrow> real \<Rightarrow> error + real" where
  "py_div a b = (if b = 0 then Inl ZeroDivisionError else Inr (a / b))"

text \<open>\<^verbatim>\<open>round(x, 2)\<close>: to the nearest multiple of 1/100, ties to the even one.\<close>

definition round_half_even :: "real \<Rightarrow> int" where
  "round_half_even x =
     (let f = \<lfloor>x\<rfloor>; d = x - of_int f
      in if d < 1 / 2 then f else if 1 / 2 < d then f + 1 else if even f then f else f + 1)"

definition round2 :: "real \<Rightarrow> real" where
  "round2 x = of_int (round_half_even (x * 100)) / 100"

subsection \<open>The trade execution engine\<close>

text \<open>The cell of a column, as \<^verbatim>\<open>row.get(col)\<close> guarded by \<^verbatim>\<open>col in df.columns\<close> reads it.\<close>

definition get_Open :: "frame \<Rightarrow> bar \<Rightarrow> real option" where
  "get_Open df r = (if has_Open df then Open r else None)"

definition get_Close :: "frame \<Rightarrow> bar \<Rightarrow> real option" where
  "get_Close df r = (if has_Close df then Close r else None)"

text \<open>Lines 103 to 109: the execution price at the next row, Open before Close.\<close>

definition exec_price :: "frame \<Rightarrow> bar \<Rightarrow> real option" where
  "exec_price df next_row =
     (if get_Open df next_row \<noteq> None then get_Open df next_row
      else if get_Close df next_row \<noteq> None then get_Close df next_row
      else None)"

text \<open>Lines 145 to 148: the price of the forced close at the last row, Close before Open.\<close>

definition last_price :: "frame \<Rightarrow> bar \<Rightarrow> real option" where
  "last_price df last_row =
     (if get_Close df last_row \<noteq> None then get_Close df last_row
      else if get_Open df last_row \<noteq> None then get_Open df last_row
      else None)"

definition new_trade :: "int \<Rightarrow> real \<Rightarrow> real \<Rightarrow> trade" where
  "new_trade d p q =
     \<lparr>Entry_Date = d, Entry_Price = p, Exit_Date = None, Exit_Price = None, Qty = q, PnL = None\<rparr>"

text \<open>\<^verbatim>\<open>trades[-1].update({...})\<close>; on an empty list the index raises.\<close>

definition update_last :: "int \<Rightarrow> real \<Rightarrow> real \<Rightarrow> trade list \<Rightarrow> error + trade list" where
  "update_last d p pnl ts =
     (if ts = [] then Inl IndexError
      else Inr (butlast ts @ [(last ts)\<lparr>Exit_Date := Some d, Exit_Price := Some p, PnL := Some pnl\<rparr>]))"

text \<open>The three statements shared by the SELL branch (lines 129 to 135) and the forced
  close (lines 151 to 157): the P&L, the new capital and the update of the last trade.
  Arithmetic on \<^verbatim>\<open>None\<close> raises a TypeError.\<close>

definition close_position :: "int \<Rightarrow> real \<Rightarrow> state \<Rightarrow> error + state" where
  "close_position d p st =
     (case (entry_price st, entry_qty st) of
        (Some ep, Some q) \<Rightarrow>
          (case update_last d p ((p - ep) * q) (trades st) of
             Inl e \<Rightarrow> Inl e
           | Inr ts \<Rightarrow> Inr (st\<lparr>capital := q * p, trades := ts\<rparr>))
      | _ \<Rightarrow> Inl TypeError)"

text \<open>Line 115: the guarded division that sizes the position.\<close>

definition position_size :: "real \<Rightarrow> real \<Rightarrow> error + real" where
  "position_size cap p = (if 0 < p then py_div cap p else Inr 0)"

text \<open>One iteration of the loop of line 100, for the decision row \<open>i\<close>.\<close>

definition step :: "frame \<Rightarrow> nat \<Rightarrow> state \<Rightarrow> error + state" where
  "step df i st =
     (let sig = normalize_signal (Signal (rows df ! i));
          next_row = rows df ! (i + 1)
      in case exec_price df next_row of
           None \<Rightarrow> Inr st
         | Some p \<Rightarrow>
             if sig = BUY \<and> \<not> in_position st then
               (case position_size (capital st) p of
                  Inl e \<Rightarrow> Inl e
                | Inr q \<Rightarrow>
                    Inr (st\<lparr>entry_price := Some p, entry_qty := Some q, in_position := True,
                            trades := trades st @ [new_trade (Date next_row) p q]\<rparr>))
             else if sig = SELL \<and> in_position st then
               (case close_position (Date next_row) p st of
                  Inl e \<Rightarrow> Inl e
                | Inr st' \<Rightarrow>
                    Inr (st'\<lparr>in_position := False, entry_price := None, entry_qty := None\<rparr>))
             else Inr st)"

text \<open>The loop over a list of decision rows; an exception ends it.\<close>

fun run_loop :: "frame \<Rightarrow> nat list \<Rightarrow> state \<Rightarrow> error + state" where
  "run_loop df [] st = Inr st"
| "run_loop df (i # is) st =
     (case step df i st of Inl e \<Rightarrow> Inl e | Inr st' \<Rightarrow> run_loop df is st')"

definition init_state :: "real \<Rightarrow> state" where
  "init_state initial_capital =
     \<lparr>trades = [], in_position = False, entry_price = None, entry_qty = None,
      capital = initial_capital\<rparr>"

text \<open>The state after the first \<open>k\<close> iterations of the loop.\<close>

definition loop_upto :: "frame \<Rightarrow> real \<Rightarrow> nat \<Rightarrow> error + state" where
  "loop_upto df initial_capital k = run_loop df [0..<k] (init_state initial_capital)"

text \<open>Lines 141 to 158: the forced close at the end of the series.\<close>

definition force_close :: "frame \<Rightarrow> state \<Rightarrow> error + state" where
  "force_close df st =
     (if in_position st then
        (let last_row = last (rows df)
         in case last_price df last_row of
              None \<Rightarrow> Inr (st\<lparr>in_position := False\<rparr>)
            | Some lp \<Rightarrow>
                (case close_position (Date last_row) lp st of
                   Inl e \<Rightarrow> Inl e
                 | Inr st' \<Rightarrow> Inr (st'\<lparr>in_position := False\<rparr>)))
      else Inr st)"

subsection \<open>The portfolio accountant\<close>

definition zero_summary :: "real \<Rightarrow> summary" where
  "zero_summary cap =
     \<lparr>Final_Capital = cap, Total_Trades = 0, Wins = 0, Win_Ratio = 0, Total_PnL = 0,
      Return_pct = 0\<rparr>"

definition return_pct :: "real \<Rightarrow> real \<Rightarrow> error + real" where
  "return_pct cap initial_capital =
     (case py_div (cap - initial_capital) initial_capital of
        Inl e \<Rightarrow> Inl e
      | Inr r \<Rightarrow> Inr (round2 (r * 100)))"

text \<open>\<^verbatim>\<open>dropna(subset=["Exit Date"])\<close> and the \<^verbatim>\<open>fillna(0.0)\<close> of the P&L column.\<close>

definition is_completed :: "trade \<Rightarrow> bool" where
  "is_completed t = (Exit_Date t \<noteq> None)"

definition fill_pnl :: "trade \<Rightarrow> trade" where
  "fill_pnl t = t\<lparr>PnL := Some (case PnL t of None \<Rightarrow> 0 | Some v \<Rightarrow> v)\<rparr>"

definition pnl_of :: "trade \<Rightarrow> real" where
  "pnl_of t = (case PnL t of None \<Rightarrow> 0 | Some v \<Rightarrow> v)"

text \<open>Lines 160 to 209: the returned trade table and the summary.\<close>

definition summarize :: "trade list \<Rightarrow> real \<Rightarrow> real \<Rightarrow> error + (trade list \<times> summary)" where
  "summarize ts cap initial_capital =
     (if ts = [] then
        (case return_pct cap initial_capital of
           Inl e \<Rightarrow> Inl e
         | Inr r \<Rightarrow> Inr ([], (zero_summary cap)\<lparr>Return_pct := r\<rparr>))
      else
        (let completed = filter is_completed ts
         in if completed = [] then
              (case return_pct cap initial_capital of
                 Inl e \<Rightarrow> Inl e
               | Inr r \<Rightarrow> Inr ([], (zero_summary cap)\<lparr>Return_pct := r\<rparr>))
            else
              (let completed = map fill_pnl completed;
                   total_trades = length completed;
                   wins = length (filter (\<lambda>t. 0 < pnl_of t) completed);
                   total_pnl = sum_list (map pnl_of completed);
                   win_ratio = (if 0 < total_trades
                                then round2 (real wins / real total_trades * 100) else 0)
               in case return_pct cap initial_capital of
                    Inl e \<Rightarrow> Inl e
                  | Inr r \<Rightarrow>
                      Inr (completed,
                           \<lparr>Final_Capital = cap, Total_Trades = total_trades, Wins = wins,
                            Win_Ratio = win_ratio, Total_PnL = total_pnl, Return_pct = r\<rparr>))))"

definition backtest :: "frame \<Rightarrow> real \<Rightarrow> error + (trade list \<times> summary)" where
  "backtest df0 initial_capital =
     (let df = ensure_datetime_index df0
      in if length (rows df) < 2 \<or> \<not> has_Signal df then Inr ([], zero_summary initial_capital)
         else
           (case run_loop df [0..<length (rows df) - 1] (init_state initial_capital) of
              Inl e \<Rightarrow> Inl e
            | Inr st \<Rightarrow>
                (case force_close df st of
                   Inl e \<Rightarrow> Inl e
                 | Inr st' \<Rightarrow> summarize (trades st') (capital st') initial_capital)))"

subsection \<open>The multi-ticker driver\<close>

text \<open>The calendar arithmetic \<^verbatim>\<open>last_date - pd.DateOffset(months=months)\<close> belongs to
  pandas; it is the parameter \<open>window_start\<close>, from the last date to the start date.
  The label slice \<^verbatim>\<open>df.loc[start:last]\<close> keeps the rows between both ends, inclusive.\<close>

definition slice_rows :: "int \<Rightarrow> int \<Rightarrow> frame \<Rightarrow> frame" where
  "slice_rows start_date last_date df =
     df\<lparr>rows := filter (\<lambda>r. start_date \<le> Date r \<and> Date r \<le> last_date) (rows df)\<rparr>"

type_synonym outputs = "(string \<rightharpoonup> trade list) \<times> (string \<rightharpoonup> summary)"

text \<open>The body of the loop of line 226 for one ticker; the \<^verbatim>\<open>except\<close> clause of line 258
  turns any exception of the simulation into the zero entry.\<close>

definition backtest_one :: "(int \<Rightarrow> int) \<Rightarrow> real \<Rightarrow> outputs \<Rightarrow> string \<times> frame \<Rightarrow> outputs" where
  "backtest_one window_start initial_capital out item =
     (let results = fst out; summaries = snd out; ticker = fst item;
          df_local = ensure_datetime_index (snd item)
      in if length (rows df_local) = 0 then (results, summaries)
         else
           (let last_date = Max (set (map Date (rows df_local)));
                start_date = window_start last_date;
                df_slice = slice_rows start_date last_date df_local
            in if rows df_slice = [] \<or> \<not> has_Signal df_slice then
                 (results(ticker \<mapsto> []), summaries(ticker \<mapsto> zero_summary initial_capital))
               else
                 (case backtest df_slice initial_capital of
                    Inr (trades_df, summary) \<Rightarrow>
                      (results(ticker \<mapsto> trades_df), summaries(ticker \<mapsto> summary))
                  | Inl e \<Rightarrow>
                      (results(ticker \<mapsto> []), summaries(ticker \<mapsto> zero_summary initial_capital)))))"

text \<open>The input dictionary is the list of its items in iteration order.\<close>

definition backtest_all :: "(int \<Rightarrow> int) \<Rightarrow> (string \<times> frame) list \<Rightarrow> real \<Rightarrow> outputs" where
  "backtest_all window_start data_dict initial_capital =
     foldl (backtest_one window_start initial_capital) (Map.empty, Map.empty) data_dict"

subsection \<open>Predicates used by the properties\<close>

text \<open>A trade whose exit fields are all present.\<close>

definition closed :: "trade \<Rightarrow> bool" where
  "closed t = (Exit_Date t \<noteq> None \<and> Exit_Price t \<noteq> None \<and> PnL t \<noteq> None)"

text \<open>A trade whose exit fields are all absent.\<close>

definition is_open :: "trade \<Rightarrow> bool" where
  "is_open t = (Exit_Date t = None \<and> Exit_Price t = None \<and> PnL t = None)"

text \<open>The relation between the position variables and the trade list that the loop keeps:
  while in position, the last trade is the open one and the position variables are its
  entry price and quantity; every other trade is closed.\<close>

definition state_ok :: "state \<Rightarrow> bool" where
  "state_ok st =
     ((in_position st \<longrightarrow>
         trades st \<noteq> [] \<and> entry_price st = Some (Entry_Price (last (trades st)))
         \<and> entry_qty st = Some (Qty (last (trades st)))
         \<and> is_open (last (trades st)))
      \<and> (\<not> in_position st \<longrightarrow> list_all closed (trades st))
      \<and> list_all closed (butlast (trades st)))"

text \<open>The holding interval of a trade runs from its entry date to its exit date.  Two trades
  do not overlap when the earlier one has exited strictly before the later one is entered.\<close>

definition interval_ok :: "trade \<Rightarrow> bool" where
  "interval_ok t = (case Exit_Date t of None \<Rightarrow> True | Some x \<Rightarrow> Entry_Date t \<le> x)"

definition exits_before :: "trade \<Rightarrow> trade \<Rightarrow> bool" where
  "exits_before t u = (case Exit_Date t of None \<Rightarrow> False | Some x \<Rightarrow> x < Entry_Date u)"

definition non_overlapping :: "trade list \<Rightarrow> bool" where
  "non_overlapping ts = (list_all interval_ok ts \<and> sorted_wrt exits_before ts)"

definition dated_upto :: "int \<Rightarrow> trade list \<Rightarrow> bool" where
  "dated_upto d ts =
     list_all (\<lambda>t. Entry_Date t \<le> d \<and> (case Exit_Date t of None \<Rightarrow> True | Some x \<Rightarrow> x \<le> d)) ts"


subsection \<open>Concrete series\<close>

definition mk_bar :: "int \<Rightarrow> real option \<Rightarrow> real option \<Rightarrow> sigval \<Rightarrow> bar" where
  "mk_bar d op cl s = \<lparr>Date = d, Open = op, Close = cl, Signal = s\<rparr>"

definition mk_frame :: "bar list \<Rightarrow> frame" where
  "mk_frame bs = \<lparr>rows = bs, has_Open = True, has_Close = True, has_Signal = True\<rparr>"

text \<open>The four-bar scenario of the specification, dates d0 to d3 as 0 to 3.\<close>

definition example_series :: frame where
  "example_series = mk_frame
     [mk_bar 0 (Some 10) (Some 10) (StrV ''BUY''),
      mk_bar 1 (Some 11) (Some 12) (StrV ''HOLD''),
      mk_bar 2 (Some 13) (Some 14) (StrV ''SELL''),
      mk_bar 3 (Some 15) (Some 15) (StrV ''HOLD'')]"

text \<open>A position entered at the second bar; the last bar has neither price.\<close>

definition unclosable_series :: frame where
  "unclosable_series = mk_frame
     [mk_bar 0 (Some 10) (Some 10) (IntV 1),
      mk_bar 1 (Some 11) (Some 12) (IntV 0),
      mk_bar 2 None None (IntV 0)]"

text \<open>A position entered at the last bar, which has an Open of 20 and no Close.\<close>

definition tail_series :: frame where
  "tail_series = mk_frame
     [mk_bar 0 (Some 10) (Some 10) (IntV 1),
      mk_bar 1 (Some 20) None (IntV 0)]"

text \<open>A BUY that executes at a price of zero, then a SELL at 7.\<close>

definition zero_price_series :: frame where
  "zero_price_series = mk_frame
     [mk_bar 0 (Some 10) (Some 10) (IntV 1),
      mk_bar 1 (Some 0) (Some 5) (IntV (- 1)),
      mk_bar 2 (Some 7) (Some 7) (IntV 0)]"

text \<open>A frame with a single bar, and a frame with no rows.\<close>

definition one_bar_series :: frame where
  "one_bar_series = mk_frame [mk_bar 0 (Some 10) (Some 10) (IntV 1)]"

definition empty_frame :: frame where
  "empty_frame = mk_frame []"

text \<open>A second BUY while in position and a second SELL while flat.\<close>

definition repeat_series :: frame where
  "repeat_series = mk_frame
     [mk_bar 0 (Some 10) (Some 10) (IntV 1),
      mk_bar 1 (Some 11) (Some 11) (IntV 1),
      mk_bar 2 (Some 12) (Some 12) (IntV (- 1)),
      mk_bar 3 (Some 13) (Some 13) (IntV (- 1)),
      mk_bar 4 (Some 14) (Some 14) (IntV 0)]"

text \<open>A closed trade, then a position entered at the fourth bar; the last bar has neither
  price.\<close>

definition open_tail_series :: frame where
  "open_tail_series = mk_frame
     [mk_bar 0 (Some 10) (Some 10) (IntV 1),
      mk_bar 1 (Some 11) (Some 11) (IntV (- 1)),
      mk_bar 2 (Some 12) (Some 12) (IntV 1),
      mk_bar 3 (Some 13) (Some 13) (IntV 0),
      mk_bar 4 None None (IntV 0)]"

text \<open>A position entered at the last bar, which has a Close of 12.\<close>

definition held_series :: frame where
  "held_series = mk_frame
     [mk_bar 0 (Some 10) (Some 10) (IntV 1),
      mk_bar 1 (Some 11) (Some 12) (IntV 0)]"

section \<open>Properties\<close>

subsection \<open>The loop never raises\<close>

lemma state_ok_init: "state_ok (init_state cap)"
  by (simp add: state_ok_def init_state_def)

lemma close_position_ok:
  assumes "state_ok st" "in_position st"
  shows "close_position d p st =
           Inr (st\<lparr>capital := Qty (last (trades st)) * p,
                   trades := butlast (trades st) @
                     [(last (trades st))\<lparr>Exit_Date := Some d, Exit_Price := Some p,
                        PnL := Some ((p - Entry_Price (last (trades st))) * Qty (last (trades st)))\<rparr>]\<rparr>)"
  using assms by (simp add: state_ok_def close_position_def update_last_def)

lemma step_cases:
  assumes "state_ok st"
  shows "step df i st =
    (case exec_price df (rows df ! (i + 1)) of
       None \<Rightarrow> Inr st
     | Some p \<Rightarrow>
        if normalize_signal (Signal (rows df ! i)) = BUY \<and> \<not> in_position st then
          Inr (st\<lparr>entry_price := Some p, entry_qty := Some (if 0 < p then capital st / p else 0),
                  in_position := True,
                  trades := trades st @
                    [new_trade (Date (rows df ! (i + 1))) p (if 0 < p then capital st / p else 0)]\<rparr>)
        else if normalize_signal (Signal (rows df ! i)) = SELL \<and> in_position st then
          Inr (st\<lparr>capital := Qty (last (trades st)) * p,
                   trades := butlast (trades st) @
                     [(last (trades st))\<lparr>Exit_Date := Some (Date (rows df ! (i + 1))),
                        Exit_Price := Some p,
                        PnL := Some ((p - Entry_Price (last (trades st))) * Qty (last (trades st)))\<rparr>],
                   in_position := False, entry_price := None, entry_qty := None\<rparr>)
        else Inr st)"
proof (cases "in_position st")
  case True
  then show ?thesis
    using assms by (simp add: step_def Let_def close_position_ok split: option.splits)
next
  case False
  then show ?thesis
    by (simp add: step_def Let_def position_size_def py_div_def split: option.splits)
qed

lemma step_ok:
  assumes "state_ok st"
  shows "\<exists>st'. step df i st = Inr st' \<and> state_ok st'"
  using assms unfolding step_cases[OF assms]
  by (auto simp: state_ok_def new_trade_def closed_def is_open_def split: option.splits)

lemma run_loop_ok:
  "state_ok st \<Longrightarrow> \<exists>st'. run_loop df is st = Inr st' \<and> state_ok st'"
proof (induction "is" arbitrary: st)
  case Nil
  then show ?case by simp
next
  case (Cons i "is")
  from step_ok[OF Cons.prems, of df i] obtain st1
    where s: "step df i st = Inr st1" "state_ok st1"
    by blast
  from Cons.IH[OF s(2)] s(1) show ?case by simp
qed

lemma run_loop_append:
  "run_loop df (xs @ ys) st =
     (case run_loop df xs st of Inl e \<Rightarrow> Inl e | Inr st' \<Rightarrow> run_loop df ys st')"
  by (induction xs arbitrary: st) (auto split: sum.splits)

lemma loop_upto_Suc:
  "loop_upto df cap (Suc k) =
     (case loop_upto df cap k of Inl e \<Rightarrow> Inl e | Inr st \<Rightarrow> step df k st)"
  by (simp add: loop_upto_def run_loop_append split: sum.splits)

lemma loop_upto_ok: "\<exists>st. loop_upto df cap k = Inr st \<and> state_ok st"
  unfolding loop_upto_def by (rule run_loop_ok[OF state_ok_init])

lemma loop_upto_state_ok: "loop_upto df cap k = Inr st \<Longrightarrow> state_ok st"
  using loop_upto_ok[of df cap k] by auto

lemma force_close_ok:
  assumes "state_ok st"
  shows "force_close df st =
     (if in_position st then
        (case last_price df (last (rows df)) of
           None \<Rightarrow> Inr (st\<lparr>in_position := False\<rparr>)
         | Some lp \<Rightarrow>
             Inr (st\<lparr>capital := Qty (last (trades st)) * lp,
                   trades := butlast (trades st) @
                     [(last (trades st))\<lparr>Exit_Date := Some (Date (last (rows df))),
                        Exit_Price := Some lp,
                        PnL := Some ((lp - Entry_Price (last (trades st))) * Qty (last (trades st)))\<rparr>],
                   in_position := False\<rparr>))
      else Inr st)"
  using assms by (simp add: force_close_def Let_def close_position_ok split: option.splits)

subsection \<open>Signal normalisation\<close>





subsection \<open>The four-bar scenario\<close>

text \<open>
  Claim C8, as stated, fails: the SELL is decided at d2 and therefore executes at the next
  bar, d3, at its Open of 15; the exit is not at d2 at 13, the P&L is not 2000/11, the final
  capital is not 13000/11 and the return is not 18.18.
\<close>

theorem example_series_counterexample:
  "map Exit_Date (fst (projr (backtest example_series 1000))) \<noteq> [Some 2]
   \<and> map Exit_Price (fst (projr (backtest example_series 1000))) \<noteq> [Some 13]
   \<and> map PnL (fst (projr (backtest example_series 1000))) \<noteq> [Some (2000 / 11)]
   \<and> Final_Capital (snd (projr (backtest example_series 1000))) \<noteq> 13000 / 11
   \<and> Return_pct (snd (projr (backtest example_series 1000))) \<noteq> 1818 / 100"
  by code_simp

text \<open>
  Claim C8, amended: on the four-bar series with initial capital 1000, backtest returns
  exactly one closed trade, entered at d1 at price 11 with quantity 1000/11, exited at d3 at
  price 15, with P&L (15 - 11) * 1000/11 = 4000/11; the final capital is 15000/11 and the
  return, (final - initial) / initial * 100 rounded to 2 decimals, is 36.36.
\<close>

theorem example_series_result:
  "backtest example_series 1000 =
     Inr ([\<lparr>Entry_Date = 1, Entry_Price = 11, Exit_Date = Some 3, Exit_Price = Some 15,
            Qty = 1000 / 11, PnL = Some (4000 / 11)\<rparr>],
          \<lparr>Final_Capital = 15000 / 11, Total_Trades = 1, Wins = 1, Win_Ratio = 100,
           Total_PnL = 4000 / 11, Return_pct = 3636 / 100\<rparr>)"
  by code_simp

subsection \<open>Insufficient data\<close>

text \<open>
  Claim C9: with fewer than 2 bars, or without a Signal column, backtest raises nothing and
  returns the empty trade list and the summary with 0 trades, 0 wins, win ratio 0, total
  P&L 0 and the initial capital as final capital.
\<close>

theorem backtest_insufficient_data:
  assumes "length (rows df) < 2 \<or> \<not> has_Signal df"
  shows "backtest df initial_capital =
           Inr ([], \<lparr>Final_Capital = initial_capital, Total_Trades = 0, Wins = 0, Win_Ratio = 0,
                     Total_PnL = 0, Return_pct = 0\<rparr>)"
  using assms by (auto simp: backtest_def Let_def ensure_datetime_index_def zero_summary_def)

theorem backtest_insufficient_data_witness:
  "length (rows one_bar_series) < 2
   \<and> backtest one_bar_series 500 =
           Inr ([], \<lparr>Final_Capital = 500, Total_Trades = 0, Wins = 0, Win_Ratio = 0,
                     Total_PnL = 0, Return_pct = 0\<rparr>)"
proof -
  have h: "length (rows one_bar_series) < 2"
    by (simp add: one_bar_series_def mk_frame_def)
  show ?thesis using h backtest_insufficient_data[of one_bar_series 500] by simp
qed

subsection \<open>Trades are kept, and what backtest returns\<close>

lemma closed_fill_pnl: "closed t \<Longrightarrow> fill_pnl t = t"
  by (auto simp: closed_def fill_pnl_def)

lemma map_fill_closed: "list_all closed ts \<Longrightarrow> map fill_pnl ts = ts"
  by (induction ts) (simp_all add: closed_fill_pnl)

lemma closed_completed: "closed t \<Longrightarrow> is_completed t"
  by (simp add: closed_def is_completed_def)

lemma open_not_completed: "is_open t \<Longrightarrow> \<not> is_completed t"
  by (simp add: is_open_def is_completed_def)

lemma completed_of_open_state:
  assumes "state_ok st" "in_position st"
  shows "filter is_completed (trades st) = butlast (trades st)"
proof -
  from assms have ne: "trades st \<noteq> []" and op: "is_open (last (trades st))"
    and cl: "list_all closed (butlast (trades st))"
    by (simp_all add: state_ok_def)
  have a: "filter is_completed (butlast (trades st)) = butlast (trades st)"
    using cl by (auto simp: list_all_iff closed_completed)
  have "trades st = butlast (trades st) @ [last (trades st)]"
    using ne by simp
  then have "filter is_completed (trades st) =
      filter is_completed (butlast (trades st)) @ filter is_completed [last (trades st)]"
    by (metis filter_append)
  then show ?thesis using a op by (simp add: open_not_completed)
qed

lemma summarize_ok:
  assumes "ic \<noteq> 0"
  shows "summarize ts cap ic =
     (let completed = map fill_pnl (filter is_completed ts)
      in Inr (completed,
           \<lparr>Final_Capital = cap, Total_Trades = length completed,
            Wins = length (filter (\<lambda>t. 0 < pnl_of t) completed),
            Win_Ratio = (if completed = [] then 0
                         else round2 (real (length (filter (\<lambda>t. 0 < pnl_of t) completed))
                                / real (length completed) * 100)),
            Total_PnL = sum_list (map pnl_of completed),
            Return_pct = round2 ((cap - ic) / ic * 100)\<rparr>))"
proof (cases "filter is_completed ts = []")
  case True
  then show ?thesis
    using assms
    by (simp add: summarize_def Let_def return_pct_def py_div_def zero_summary_def)
next
  case False
  then have "ts \<noteq> []" by auto
  with False show ?thesis
    using assms
    by (simp add: summarize_def Let_def return_pct_def py_div_def)
qed









lemma force_close_total:
  assumes "state_ok st"
  shows "\<exists>st'. force_close df st = Inr st'"
  by (simp add: force_close_ok[OF assms] split: option.splits)


lemma backtest_run:
  assumes "2 \<le> length (rows df0)" and "has_Signal df0" and "df = ensure_datetime_index df0"
  shows "\<exists>stn stf. loop_upto df cap (length (rows df) - 1) = Inr stn \<and> state_ok stn
           \<and> force_close df stn = Inr stf
           \<and> backtest df0 cap = summarize (trades stf) (capital stf) cap"
proof -
  obtain stn where stn: "loop_upto df cap (length (rows df) - 1) = Inr stn" "state_ok stn"
    using loop_upto_ok by blast
  obtain stf where stf: "force_close df stn = Inr stf"
    using force_close_total[OF stn(2)] by blast
  have len: "length (rows df) = length (rows df0)" and sg: "has_Signal df = has_Signal df0"
    by (simp_all add: assms(3) ensure_datetime_index_def)
  have "backtest df0 cap = summarize (trades stf) (capital stf) cap"
    using assms(1,2) stn(1) stf len sg
    by (simp add: backtest_def Let_def assms(3)[symmetric] loop_upto_def)
  with stn stf show ?thesis by blast
qed

lemma fill_pnl_entry [simp]:
  "Entry_Date (fill_pnl t) = Entry_Date t" "Entry_Price (fill_pnl t) = Entry_Price t"
  by (simp_all add: fill_pnl_def)



subsection \<open>Next-bar execution\<close>



subsection \<open>End-of-series force-close\<close>

text \<open>
  Claim C4: when a position is still open after the main loop, the forced close fills the
  exit fields of the last trade with the last bar's date and the last bar's Close if
  present, else its Open if present; if neither price is present, the trade list is left as
  it is and the last trade keeps its exit fields absent.  This is what backtest does: on the
  sorted input with a Signal column it returns the summary of the state after this forced
  close, and for a non-zero initial capital the returned table ends with the trade closed at
  that price and the final capital is its quantity times that price; with neither price the
  final capital is the loop's capital and the returned table is the trade list without the
  open trade.
\<close>

theorem force_close_prices:
  assumes "loop_upto df cap (length (rows df) - 1) = Inr st" and "in_position st"
  shows "\<exists>st'. force_close df st = Inr st' \<and> \<not> in_position st' \<and>
     (case get_Close df (last (rows df)) of
        Some c \<Rightarrow>
          capital st' = Qty (last (trades st)) * c
          \<and> trades st' = butlast (trades st) @
               [(last (trades st))\<lparr>Exit_Date := Some (Date (last (rows df))), Exit_Price := Some c,
                  PnL := Some ((c - Entry_Price (last (trades st))) * Qty (last (trades st)))\<rparr>]
      | None \<Rightarrow>
          (case get_Open df (last (rows df)) of
             Some p \<Rightarrow>
               capital st' = Qty (last (trades st)) * p
               \<and> trades st' = butlast (trades st) @
                    [(last (trades st))\<lparr>Exit_Date := Some (Date (last (rows df))),
                       Exit_Price := Some p,
                       PnL := Some ((p - Entry_Price (last (trades st))) * Qty (last (trades st)))\<rparr>]
           | None \<Rightarrow>
               capital st' = capital st \<and> trades st' = trades st \<and> trades st' \<noteq> []
               \<and> is_open (last (trades st'))))
     \<and> (df = ensure_datetime_index raw \<and> has_Signal raw \<longrightarrow>
          summarize (trades st') (capital st') cap = backtest raw cap
          \<and> (cap \<noteq> 0 \<longrightarrow>
               (\<exists>ts s. backtest raw cap = Inr (ts, s) \<and> Final_Capital s = capital st' \<and>
                  (case get_Close df (last (rows df)) of
                     Some c \<Rightarrow>
                       Final_Capital s = Qty (last (trades st)) * c
                       \<and> ts = butlast (trades st) @
                            [(last (trades st))\<lparr>Exit_Date := Some (Date (last (rows df))),
                               Exit_Price := Some c,
                               PnL := Some ((c - Entry_Price (last (trades st)))
                                             * Qty (last (trades st)))\<rparr>]
                   | None \<Rightarrow>
                       (case get_Open df (last (rows df)) of
                          Some p \<Rightarrow>
                            Final_Capital s = Qty (last (trades st)) * p
                            \<and> ts = butlast (trades st) @
                                 [(last (trades st))\<lparr>Exit_Date := Some (Date (last (rows df))),
                                    Exit_Price := Some p,
                                    PnL := Some ((p - Entry_Price (last (trades st)))
                                                  * Qty (last (trades st)))\<rparr>]
                        | None \<Rightarrow>
                            Final_Capital s = capital st \<and> ts = butlast (trades st))))))"
proof -
  have ok: "state_ok st" using assms(1) by (rule loop_upto_state_ok)
  have cl: "list_all closed (butlast (trades st))" using ok by (simp add: state_ok_def)
  obtain st' where fc: "force_close df st = Inr st'"
    using force_close_total[OF ok] by blast
  let ?closed_at = "\<lambda>p. butlast (trades st) @
               [(last (trades st))\<lparr>Exit_Date := Some (Date (last (rows df))), Exit_Price := Some p,
                  PnL := Some ((p - Entry_Price (last (trades st))) * Qty (last (trades st)))\<rparr>]"
  have old: "\<not> in_position st' \<and>
     (case get_Close df (last (rows df)) of
        Some c \<Rightarrow> capital st' = Qty (last (trades st)) * c \<and> trades st' = ?closed_at c
      | None \<Rightarrow>
          (case get_Open df (last (rows df)) of
             Some p \<Rightarrow> capital st' = Qty (last (trades st)) * p \<and> trades st' = ?closed_at p
           | None \<Rightarrow>
               capital st' = capital st \<and> trades st' = trades st \<and> trades st' \<noteq> []
               \<and> is_open (last (trades st'))))"
    using assms(2) ok fc
    by (auto simp: force_close_ok[OF ok] last_price_def state_ok_def split: option.splits)
  have all_closed: "map fill_pnl (filter is_completed (?closed_at p)) = ?closed_at p" for p
  proof -
    have c: "list_all closed (?closed_at p)"
      using cl by (simp add: closed_def)
    then have "filter is_completed (?closed_at p) = ?closed_at p"
      by (auto simp: list_all_iff closed_completed simp del: filter_append)
    then show ?thesis using map_fill_closed[OF c] by simp
  qed
  have still_open: "map fill_pnl (filter is_completed (trades st)) = butlast (trades st)"
    using completed_of_open_state[OF ok assms(2)] map_fill_closed[OF cl] by simp
  have new: "summarize (trades st') (capital st') cap = backtest raw cap
          \<and> (cap \<noteq> 0 \<longrightarrow>
               (\<exists>ts s. backtest raw cap = Inr (ts, s) \<and> Final_Capital s = capital st' \<and>
                  (case get_Close df (last (rows df)) of
                     Some c \<Rightarrow> Final_Capital s = Qty (last (trades st)) * c \<and> ts = ?closed_at c
                   | None \<Rightarrow>
                       (case get_Open df (last (rows df)) of
                          Some p \<Rightarrow> Final_Capital s = Qty (last (trades st)) * p
                                     \<and> ts = ?closed_at p
                        | None \<Rightarrow>
                            Final_Capital s = capital st \<and> ts = butlast (trades st)))))"
    if h: "df = ensure_datetime_index raw" "has_Signal raw"
  proof -
    have "length (rows df) - 1 \<noteq> 0"
    proof
      assume "length (rows df) - 1 = 0"
      then have "st = init_state cap" using assms(1) by (simp add: loop_upto_def)
      then show False using assms(2) by (simp add: init_state_def)
    qed
    moreover have "length (rows df) = length (rows raw)"
      by (simp add: h(1) ensure_datetime_index_def)
    ultimately have two: "2 \<le> length (rows raw)" by linarith
    from backtest_run[OF two h(2) h(1), of cap] assms(1) fc
    have bt: "backtest raw cap = summarize (trades st') (capital st') cap"
      by auto
    have "\<exists>ts s. backtest raw cap = Inr (ts, s) \<and> Final_Capital s = capital st' \<and>
                  (case get_Close df (last (rows df)) of
                     Some c \<Rightarrow> Final_Capital s = Qty (last (trades st)) * c \<and> ts = ?closed_at c
                   | None \<Rightarrow>
                       (case get_Open df (last (rows df)) of
                          Some p \<Rightarrow> Final_Capital s = Qty (last (trades st)) * p
                                     \<and> ts = ?closed_at p
                        | None \<Rightarrow>
                            Final_Capital s = capital st \<and> ts = butlast (trades st)))"
      if nz: "cap \<noteq> 0"
    proof -
      let ?ts = "map fill_pnl (filter is_completed (trades st'))"
      obtain s where s: "backtest raw cap = Inr (?ts, s)" "Final_Capital s = capital st'"
        unfolding bt summarize_ok[OF nz] Let_def by simp
      show ?thesis
      proof (cases "get_Close df (last (rows df))")
        case (Some c)
        with old have t: "trades st' = ?closed_at c" and k: "capital st' = Qty (last (trades st)) * c"
          by simp_all
        have "?ts = ?closed_at c" unfolding t by (rule all_closed)
        with s k Some show ?thesis by simp
      next
        case None
        show ?thesis
        proof (cases "get_Open df (last (rows df))")
          case (Some p)
          with old None have t: "trades st' = ?closed_at p"
            and k: "capital st' = Qty (last (trades st)) * p"
            by simp_all
          have "?ts = ?closed_at p" unfolding t by (rule all_closed)
          with s k Some None show ?thesis by simp
        next
          case no: None
          with old None have t: "trades st' = trades st" and k: "capital st' = capital st"
            by simp_all
          have "?ts = butlast (trades st)" unfolding t by (rule still_open)
          with s k no None show ?thesis by simp
        qed
      qed
    qed
    with bt[symmetric] show ?thesis by blast
  qed
  show ?thesis
    using fc old new by blast
qed

theorem force_close_prices_witness:
  "in_position (projr (loop_upto tail_series 1000 (length (rows tail_series) - 1)))
   \<and> tail_series = ensure_datetime_index tail_series \<and> has_Signal tail_series
   \<and> (1000::real) \<noteq> 0
   \<and> get_Close tail_series (last (rows tail_series)) = None
   \<and> get_Open tail_series (last (rows tail_series)) = Some 20
   \<and> (\<exists>st' ts s. force_close tail_series
                 (projr (loop_upto tail_series 1000 (length (rows tail_series) - 1))) = Inr st'
          \<and> map Exit_Price (trades st') = [Some 20] \<and> map Exit_Date (trades st') = [Some 1]
          \<and> backtest tail_series 1000 = Inr (ts, s)
          \<and> map Exit_Price ts = [Some 20] \<and> map Exit_Date ts = [Some 1]
          \<and> Final_Capital s = 1000)
   \<and> in_position (projr (loop_upto held_series 1000 (length (rows held_series) - 1)))
   \<and> held_series = ensure_datetime_index held_series \<and> has_Signal held_series
   \<and> get_Close held_series (last (rows held_series)) = Some 12
   \<and> (\<exists>st' ts s. force_close held_series
                 (projr (loop_upto held_series 1000 (length (rows held_series) - 1))) = Inr st'
          \<and> map Exit_Price (trades st') = [Some 12] \<and> map Exit_Date (trades st') = [Some 1]
          \<and> backtest held_series 1000 = Inr (ts, s)
          \<and> map Exit_Price ts = [Some 12] \<and> map Exit_Date ts = [Some 1]
          \<and> Final_Capital s = 12000 / 11)
   \<and> in_position (projr (loop_upto unclosable_series 1000 (length (rows unclosable_series) - 1)))
   \<and> unclosable_series = ensure_datetime_index unclosable_series
   \<and> has_Signal unclosable_series
   \<and> get_Close unclosable_series (last (rows unclosable_series)) = None
   \<and> get_Open unclosable_series (last (rows unclosable_series)) = None
   \<and> (\<exists>st' ts s. force_close unclosable_series
                 (projr (loop_upto unclosable_series 1000 (length (rows unclosable_series) - 1)))
               = Inr st'
          \<and> map Exit_Price (trades st') = [None] \<and> map Exit_Date (trades st') = [None]
          \<and> backtest unclosable_series 1000 = Inr (ts, s) \<and> ts = []
          \<and> Final_Capital s = 1000)"
proof -
  have nz: "(1000::real) \<noteq> 0" by simp
  let ?st = "\<lparr>trades = [new_trade 1 20 50], in_position = True, entry_price = Some 20,
               entry_qty = Some 50, capital = 1000\<rparr>"
  have et: "tail_series = ensure_datetime_index tail_series"
    by (simp add: ensure_datetime_index_def tail_series_def mk_frame_def mk_bar_def)
  have st: "has_Signal tail_series"
    by (simp add: tail_series_def mk_frame_def)
  have l: "loop_upto tail_series 1000 (length (rows tail_series) - 1) = Inr ?st"
    by code_simp
  have p: "in_position ?st" by simp
  have c: "get_Close tail_series (last (rows tail_series)) = None"
    by (simp add: tail_series_def mk_frame_def mk_bar_def get_Close_def)
  have o: "get_Open tail_series (last (rows tail_series)) = Some 20"
    by (simp add: tail_series_def mk_frame_def mk_bar_def get_Open_def)
  have d: "Date (last (rows tail_series)) = 1"
    by (simp add: tail_series_def mk_frame_def mk_bar_def)
  from force_close_prices[OF l p, where raw = tail_series] obtain st' ts s where
    "force_close tail_series ?st = Inr st'"
    "trades st' = butlast (trades ?st) @
                    [(last (trades ?st))\<lparr>Exit_Date := Some (Date (last (rows tail_series))),
                       Exit_Price := Some 20,
                       PnL := Some ((20 - Entry_Price (last (trades ?st))) * Qty (last (trades ?st)))\<rparr>]"
    "backtest tail_series 1000 = Inr (ts, s)"
    "Final_Capital s = Qty (last (trades ?st)) * 20"
    "ts = butlast (trades ?st) @
                    [(last (trades ?st))\<lparr>Exit_Date := Some (Date (last (rows tail_series))),
                       Exit_Price := Some 20,
                       PnL := Some ((20 - Entry_Price (last (trades ?st))) * Qty (last (trades ?st)))\<rparr>]"
    unfolding c o using et st nz by auto
  then have tail: "in_position (projr (loop_upto tail_series 1000 (length (rows tail_series) - 1)))
     \<and> (\<exists>st' ts s. force_close tail_series
                 (projr (loop_upto tail_series 1000 (length (rows tail_series) - 1))) = Inr st'
          \<and> map Exit_Price (trades st') = [Some 20] \<and> map Exit_Date (trades st') = [Some 1]
          \<and> backtest tail_series 1000 = Inr (ts, s)
          \<and> map Exit_Price ts = [Some 20] \<and> map Exit_Date ts = [Some 1]
          \<and> Final_Capital s = 1000)"
    using l d by (simp add: new_trade_def)
  let ?sh = "\<lparr>trades = [new_trade 1 11 (1000 / 11)], in_position = True, entry_price = Some 11,
               entry_qty = Some (1000 / 11), capital = 1000\<rparr>"
  have eh: "held_series = ensure_datetime_index held_series"
    by (simp add: ensure_datetime_index_def held_series_def mk_frame_def mk_bar_def)
  have sh: "has_Signal held_series"
    by (simp add: held_series_def mk_frame_def)
  have lh: "loop_upto held_series 1000 (length (rows held_series) - 1) = Inr ?sh"
    by code_simp
  have ph: "in_position ?sh" by simp
  have ch: "get_Close held_series (last (rows held_series)) = Some 12"
    by (simp add: held_series_def mk_frame_def mk_bar_def get_Close_def)
  have dh: "Date (last (rows held_series)) = 1"
    by (simp add: held_series_def mk_frame_def mk_bar_def)
  from force_close_prices[OF lh ph, where raw = held_series] obtain sh' th sm where
    "force_close held_series ?sh = Inr sh'"
    "trades sh' = butlast (trades ?sh) @
                    [(last (trades ?sh))\<lparr>Exit_Date := Some (Date (last (rows held_series))),
                       Exit_Price := Some 12,
                       PnL := Some ((12 - Entry_Price (last (trades ?sh))) * Qty (last (trades ?sh)))\<rparr>]"
    "backtest held_series 1000 = Inr (th, sm)"
    "Final_Capital sm = Qty (last (trades ?sh)) * 12"
    "th = butlast (trades ?sh) @
                    [(last (trades ?sh))\<lparr>Exit_Date := Some (Date (last (rows held_series))),
                       Exit_Price := Some 12,
                       PnL := Some ((12 - Entry_Price (last (trades ?sh))) * Qty (last (trades ?sh)))\<rparr>]"
    unfolding ch using eh sh nz by auto
  then have held: "in_position (projr (loop_upto held_series 1000 (length (rows held_series) - 1)))
     \<and> (\<exists>st' ts s. force_close held_series
                 (projr (loop_upto held_series 1000 (length (rows held_series) - 1))) = Inr st'
          \<and> map Exit_Price (trades st') = [Some 12] \<and> map Exit_Date (trades st') = [Some 1]
          \<and> backtest held_series 1000 = Inr (ts, s)
          \<and> map Exit_Price ts = [Some 12] \<and> map Exit_Date ts = [Some 1]
          \<and> Final_Capital s = 12000 / 11)"
    using lh dh by (simp add: new_trade_def)
  have eu: "unclosable_series = ensure_datetime_index unclosable_series"
    by (simp add: ensure_datetime_index_def unclosable_series_def mk_frame_def mk_bar_def)
  have su: "has_Signal unclosable_series"
    by (simp add: unclosable_series_def mk_frame_def)
  have lu: "loop_upto unclosable_series 1000 (length (rows unclosable_series) - 1) = Inr ?sh"
    by code_simp
  have cu: "get_Close unclosable_series (last (rows unclosable_series)) = None"
    by (simp add: unclosable_series_def mk_frame_def mk_bar_def get_Close_def)
  have ou: "get_Open unclosable_series (last (rows unclosable_series)) = None"
    by (simp add: unclosable_series_def mk_frame_def mk_bar_def get_Open_def)
  from force_close_prices[OF lu ph, where raw = unclosable_series] obtain su' tu sv where
    "force_close unclosable_series ?sh = Inr su'" "trades su' = trades ?sh"
    "backtest unclosable_series 1000 = Inr (tu, sv)"
    "Final_Capital sv = capital ?sh" "tu = butlast (trades ?sh)"
    unfolding cu ou using eu su nz by auto
  then have unc:
    "in_position (projr (loop_upto unclosable_series 1000 (length (rows unclosable_series) - 1)))
     \<and> (\<exists>st' ts s. force_close unclosable_series
                 (projr (loop_upto unclosable_series 1000 (length (rows unclosable_series) - 1)))
               = Inr st'
          \<and> map Exit_Price (trades st') = [None] \<and> map Exit_Date (trades st') = [None]
          \<and> backtest unclosable_series 1000 = Inr (ts, s) \<and> ts = []
          \<and> Final_Capital s = 1000)"
    using lu by (simp add: new_trade_def)
  show ?thesis
    using tail et st nz c o held eh sh ch unc eu su cu ou by blast
qed

subsection \<open>Capital\<close>

text \<open>
  Claim C7: in every state the loop reaches, an iteration changes the capital only when it
  executes a SELL on an open position, and then the capital is the closed trade's quantity
  times its exit price; the forced close at the end of the series changes the capital only
  when it closes the open position, and then the capital is again the closed trade's quantity
  times its exit price.  No other step assigns the capital.
\<close>

theorem capital_changes_only_on_close:
  assumes "i + 1 < length (rows df)"
    and "loop_upto df cap i = Inr st"
    and "loop_upto df cap (length (rows df) - 1) = Inr stn"
  shows "(\<exists>st'. step df i st = Inr st' \<and>
            (case exec_price df (rows df ! (i + 1)) of
               None \<Rightarrow> capital st' = capital st
             | Some p \<Rightarrow>
                 if normalize_signal (Signal (rows df ! i)) = SELL \<and> in_position st then
                   trades st' \<noteq> [] \<and> Exit_Price (last (trades st')) = Some p
                   \<and> Qty (last (trades st')) = Qty (last (trades st))
                   \<and> capital st' = Qty (last (trades st')) * p
                 else capital st' = capital st))
       \<and> (\<exists>st'. force_close df stn = Inr st' \<and>
            (case last_price df (last (rows df)) of
               None \<Rightarrow> capital st' = capital stn
             | Some p \<Rightarrow>
                 if in_position stn then
                   trades st' \<noteq> [] \<and> Exit_Price (last (trades st')) = Some p
                   \<and> Qty (last (trades st')) = Qty (last (trades stn))
                   \<and> capital st' = Qty (last (trades st')) * p
                 else capital st' = capital stn))"
proof -
  have ok: "state_ok st" using assms(2) by (rule loop_upto_state_ok)
  have okn: "state_ok stn" using assms(3) by (rule loop_upto_state_ok)
  have a: "\<exists>st'. step df i st = Inr st' \<and>
            (case exec_price df (rows df ! (i + 1)) of
               None \<Rightarrow> capital st' = capital st
             | Some p \<Rightarrow>
                 if normalize_signal (Signal (rows df ! i)) = SELL \<and> in_position st then
                   trades st' \<noteq> [] \<and> Exit_Price (last (trades st')) = Some p
                   \<and> Qty (last (trades st')) = Qty (last (trades st))
                   \<and> capital st' = Qty (last (trades st')) * p
                 else capital st' = capital st)"
    by (auto simp: step_cases[OF ok] split: option.splits)
  have b: "\<exists>st'. force_close df stn = Inr st' \<and>
            (case last_price df (last (rows df)) of
               None \<Rightarrow> capital st' = capital stn
             | Some p \<Rightarrow>
                 if in_position stn then
                   trades st' \<noteq> [] \<and> Exit_Price (last (trades st')) = Some p
                   \<and> Qty (last (trades st')) = Qty (last (trades stn))
                   \<and> capital st' = Qty (last (trades st')) * p
                 else capital st' = capital stn)"
    by (auto simp: force_close_ok[OF okn] split: option.splits)
  from a b show ?thesis by blast
qed

theorem capital_changes_only_on_close_witness:
  "2 + 1 < length (rows example_series)
   \<and> normalize_signal (Signal (rows example_series ! 2)) = SELL
   \<and> exec_price example_series (rows example_series ! (2 + 1)) = Some 15
   \<and> in_position (projr (loop_upto example_series 1000 2))
   \<and> (\<exists>st'. step example_series 2 (projr (loop_upto example_series 1000 2)) = Inr st'
         \<and> Exit_Price (last (trades st')) = Some 15
         \<and> capital st' = Qty (last (trades st')) * 15 \<and> capital st' = 15000 / 11)"
proof -
  let ?st = "\<lparr>trades = [new_trade 1 11 (1000 / 11)], in_position = True, entry_price = Some 11,
               entry_qty = Some (1000 / 11), capital = 1000\<rparr>"
  let ?stn = "\<lparr>trades = [\<lparr>Entry_Date = 1, Entry_Price = 11, Exit_Date = Some 3,
                  Exit_Price = Some 15, Qty = 1000 / 11, PnL = Some (4000 / 11)\<rparr>],
                in_position = False, entry_price = None, entry_qty = None, capital = 15000 / 11\<rparr>"
  have h: "2 + 1 < length (rows example_series)"
    by (simp add: example_series_def mk_frame_def)
  have s: "normalize_signal (Signal (rows example_series ! 2)) = SELL"
    by code_simp
  have e: "exec_price example_series (rows example_series ! (2 + 1)) = Some 15"
    by code_simp
  have l: "loop_upto example_series 1000 2 = Inr ?st"
    by code_simp
  have n: "loop_upto example_series 1000 (length (rows example_series) - 1) = Inr ?stn"
    by code_simp
  from capital_changes_only_on_close[OF h l n] obtain st' where
    "step example_series 2 ?st = Inr st'" "Exit_Price (last (trades st')) = Some 15"
    "Qty (last (trades st')) = Qty (last (trades ?st))"
    "capital st' = Qty (last (trades st')) * 15"
    unfolding e s by auto
  then show ?thesis
    using h s e l by (simp add: new_trade_def)
qed

subsection \<open>The guarded division\<close>

text \<open>
  Claim C10: the position size never divides by zero.  A BUY accepted at an execution price
  that is not strictly positive opens a trade of quantity 0; closing that position at any
  date and price sets the capital to 0.
\<close>

theorem zero_quantity_guard:
  assumes "i + 1 < length (rows df)"
    and "loop_upto df cap i = Inr st"
    and "\<not> in_position st"
    and "normalize_signal (Signal (rows df ! i)) = BUY"
    and "exec_price df (rows df ! (i + 1)) = Some p"
    and "p \<le> 0"
  shows "position_size (capital st) p = Inr 0
       \<and> (\<forall>c q. position_size c q \<noteq> Inl ZeroDivisionError)
       \<and> (\<exists>st'. step df i st = Inr st' \<and> in_position st' \<and> entry_qty st' = Some 0
             \<and> trades st' = trades st @ [new_trade (Date (rows df ! (i + 1))) p 0]
             \<and> (\<forall>d p'. \<exists>st''. close_position d p' st' = Inr st'' \<and> capital st'' = 0
                    \<and> Exit_Price (last (trades st'')) = Some p' \<and> Qty (last (trades st'')) = 0))"
proof -
  have ok: "state_ok st" using assms(2) by (rule loop_upto_state_ok)
  let ?st' = "st\<lparr>entry_price := Some p, entry_qty := Some 0, in_position := True,
                  trades := trades st @ [new_trade (Date (rows df ! (i + 1))) p 0]\<rparr>"
  have ps: "position_size (capital st) p = Inr 0"
    using assms(6) by (simp add: position_size_def)
  have stp: "step df i st = Inr ?st'"
    using assms(3-6) by (simp add: step_cases[OF ok])
  have ok': "state_ok ?st'"
    using step_ok[OF ok, of df i] stp by simp
  have cl: "\<exists>st''. close_position d p' ?st' = Inr st'' \<and> capital st'' = 0
                    \<and> Exit_Price (last (trades st'')) = Some p' \<and> Qty (last (trades st'')) = 0"
    for d p'
  proof -
    have "in_position ?st'" by simp
    from close_position_ok[OF ok' this, of d p'] show ?thesis
      by (simp add: new_trade_def)
  qed
  have nz: "\<forall>c q. position_size c q \<noteq> Inl ZeroDivisionError"
    by (simp add: position_size_def py_div_def)
  show ?thesis
    using ps nz stp cl by simp
qed

theorem zero_quantity_guard_witness:
  "0 + 1 < length (rows zero_price_series)
   \<and> loop_upto zero_price_series 1000 0 = Inr (init_state 1000)
   \<and> \<not> in_position (init_state 1000)
   \<and> normalize_signal (Signal (rows zero_price_series ! 0)) = BUY
   \<and> exec_price zero_price_series (rows zero_price_series ! (0 + 1)) = Some 0
   \<and> position_size (capital (init_state 1000)) 0 = Inr 0
   \<and> (\<exists>st'. step zero_price_series 0 (init_state 1000) = Inr st' \<and> map Qty (trades st') = [0])
   \<and> capital (projr (loop_upto zero_price_series 1000 2)) = 0"
proof -
  have h: "0 + 1 < length (rows zero_price_series)"
    by (simp add: zero_price_series_def mk_frame_def)
  have l: "loop_upto zero_price_series 1000 0 = Inr (init_state 1000)"
    by (simp add: loop_upto_def)
  have f: "\<not> in_position (init_state 1000)"
    by (simp add: init_state_def)
  have s: "normalize_signal (Signal (rows zero_price_series ! 0)) = BUY"
    by code_simp
  have e: "exec_price zero_price_series (rows zero_price_series ! (0 + 1)) = Some 0"
    by code_simp
  have z: "(0::real) \<le> 0" by simp
  have c: "capital (projr (loop_upto zero_price_series 1000 2)) = 0"
    by code_simp
  from zero_quantity_guard[OF h l f s e z] obtain st' where
    "position_size (capital (init_state 1000)) 0 = Inr 0"
    "step zero_price_series 0 (init_state 1000) = Inr st'"
    "trades st' = trades (init_state 1000) @ [new_trade (Date (rows zero_price_series ! (0 + 1))) 0 0]"
    by auto
  then show ?thesis
    using h l f s e c by (simp add: new_trade_def init_state_def)
qed

subsection \<open>Single open position\<close>

text \<open>The dates of the trades follow the rows: every date recorded up to iteration \<open>k\<close> is at
  most the date of row \<open>k\<close>, and on a strictly ascending index a new entry is later than
  every earlier exit.\<close>

lemma buy_keeps_order:
  assumes "list_all closed ts" "non_overlapping ts" "dated_upto d ts" "d < d'"
  shows "non_overlapping (ts @ [new_trade d' p q]) \<and> dated_upto d' (ts @ [new_trade d' p q])"
  using assms
  by (auto simp: non_overlapping_def dated_upto_def sorted_wrt_append list_all_iff closed_def
      interval_ok_def exits_before_def new_trade_def split: option.splits)

lemma close_keeps_order:
  assumes "ts \<noteq> []" "non_overlapping ts" "dated_upto d ts" "d \<le> d'"
  shows "non_overlapping
           (butlast ts @ [(last ts)\<lparr>Exit_Date := Some d', Exit_Price := Some p, PnL := Some v\<rparr>])
       \<and> dated_upto d'
           (butlast ts @ [(last ts)\<lparr>Exit_Date := Some d', Exit_Price := Some p, PnL := Some v\<rparr>])"
proof -
  from assms(1) obtain bs l where ts: "ts = bs @ [l]"
    by (metis append_butlast_last_id)
  show ?thesis
    using assms(2-4) unfolding ts
    by (auto simp: non_overlapping_def dated_upto_def sorted_wrt_append list_all_iff
        interval_ok_def exits_before_def split: option.splits)
qed

lemma dated_upto_mono: "dated_upto d ts \<Longrightarrow> d \<le> d' \<Longrightarrow> dated_upto d' ts"
  by (auto simp: dated_upto_def list_all_iff split: option.splits)

lemma step_keeps_order:
  assumes ok: "state_ok st" and no: "non_overlapping (trades st)"
    and dt: "dated_upto (Date (rows df ! i)) (trades st)"
    and lt: "Date (rows df ! i) < Date (rows df ! (i + 1))"
    and st: "step df i st = Inr st'"
  shows "non_overlapping (trades st') \<and> dated_upto (Date (rows df ! (i + 1))) (trades st')"
proof (cases "exec_price df (rows df ! (i + 1))")
  case None
  with st ok have "st' = st" by (simp add: step_cases)
  with no lt show ?thesis
    using dated_upto_mono[OF dt, of "Date (rows df ! (i + 1))"] by simp
next
  case (Some p)
  let ?sig = "normalize_signal (Signal (rows df ! i))"
  consider (buy) "?sig = BUY \<and> \<not> in_position st"
    | (sell) "\<not> (?sig = BUY \<and> \<not> in_position st)" "?sig = SELL \<and> in_position st"
    | (noop) "\<not> (?sig = BUY \<and> \<not> in_position st)" "\<not> (?sig = SELL \<and> in_position st)"
    by blast
  then show ?thesis
  proof cases
    case buy
    then have cl: "list_all closed (trades st)" using ok by (simp add: state_ok_def)
    from st Some buy ok have "trades st' = trades st @
        [new_trade (Date (rows df ! (i + 1))) p (if 0 < p then capital st / p else 0)]"
      by (auto simp: step_cases)
    then show ?thesis using buy_keeps_order[OF cl no dt lt] by simp
  next
    case sell
    then have ne: "trades st \<noteq> []" using ok by (simp add: state_ok_def)
    from st Some sell ok have "trades st' = butlast (trades st) @
        [(last (trades st))\<lparr>Exit_Date := Some (Date (rows df ! (i + 1))), Exit_Price := Some p,
           PnL := Some ((p - Entry_Price (last (trades st))) * Qty (last (trades st)))\<rparr>]"
      by (auto simp: step_cases)
    then show ?thesis
      using close_keeps_order[OF ne no dt, of "Date (rows df ! (i + 1))"] lt by simp
  next
    case noop
    with st Some ok have "st' = st" by (auto simp: step_cases)
    then show ?thesis
      using no dated_upto_mono[OF dt, of "Date (rows df ! (i + 1))"] lt by simp
  qed
qed

lemma loop_upto_order:
  assumes "sorted_wrt (<) (map Date (rows df))" "k < length (rows df)"
  shows "\<exists>st. loop_upto df cap k = Inr st \<and> state_ok st \<and> non_overlapping (trades st)
            \<and> dated_upto (Date (rows df ! k)) (trades st)"
  using assms(2)
proof (induction k)
  case 0
  show ?case
    by (simp add: loop_upto_def init_state_def state_ok_def non_overlapping_def dated_upto_def)
next
  case (Suc k)
  then obtain st where st: "loop_upto df cap k = Inr st" "state_ok st"
      "non_overlapping (trades st)" "dated_upto (Date (rows df ! k)) (trades st)"
    by auto
  from step_ok[OF st(2), of df k] obtain st' where st': "step df k st = Inr st'" "state_ok st'"
    by blast
  have "map Date (rows df) ! k < map Date (rows df) ! (Suc k)"
    using assms(1) Suc.prems by (intro sorted_wrt_nth_less) auto
  then have lt: "Date (rows df ! k) < Date (rows df ! (k + 1))"
    using Suc.prems by simp
  from step_keeps_order[OF st(2) st(3) st(4) lt st'(1)] st' st(1)
  show ?case by (simp add: loop_upto_Suc)
qed

lemma sorted_index:
  assumes "distinct (map Date (rows df0))"
  shows "sorted_wrt (<) (map Date (rows (ensure_datetime_index df0)))"
proof -
  have "distinct (map Date (sort_key Date (rows df0)))"
    using assms by (simp add: distinct_map)
  then show ?thesis
    by (simp add: ensure_datetime_index_def strict_sorted_iff)
qed

lemma force_close_keeps_order:
  assumes ok: "state_ok st" and no: "non_overlapping (trades st)"
    and dt: "dated_upto (Date (last (rows df))) (trades st)"
    and fc: "force_close df st = Inr st'"
  shows "non_overlapping (trades st')"
proof (cases "in_position st")
  case False
  with fc ok no show ?thesis by (simp add: force_close_ok)
next
  case True
  then have ne: "trades st \<noteq> []" using ok by (simp add: state_ok_def)
  show ?thesis
    using fc True no close_keeps_order[OF ne no dt order_refl]
    by (auto simp: force_close_ok[OF ok] split: option.splits)
qed

lemma interval_ok_fill [simp]: "interval_ok (fill_pnl t) = interval_ok t"
  by (simp add: interval_ok_def fill_pnl_def split: option.splits)

lemma exits_before_fill [simp]: "exits_before (fill_pnl t) (fill_pnl u) = exits_before t u"
  by (simp add: exits_before_def fill_pnl_def split: option.splits)

lemma completed_keeps_order:
  assumes "non_overlapping ts"
  shows "non_overlapping (map fill_pnl (filter is_completed ts))"
proof -
  have "list_all interval_ok (map fill_pnl (filter is_completed ts))"
    using assms by (simp add: non_overlapping_def list_all_iff)
  moreover have "sorted_wrt exits_before (filter is_completed ts)"
    using assms by (simp add: non_overlapping_def sorted_wrt_filter)
  then have "sorted_wrt exits_before (map fill_pnl (filter is_completed ts))"
    by (simp add: sorted_wrt_map)
  ultimately show ?thesis by (simp add: non_overlapping_def)
qed

lemma summarize_out:
  assumes "summarize ts cap ic = Inr (out, s)"
  shows "out = map fill_pnl (filter is_completed ts)"
  using assms by (auto simp: summarize_def Let_def split: if_splits sum.splits)

lemma closed_not_open: "closed t \<Longrightarrow> \<not> is_open t"
  by (simp add: closed_def is_open_def)

lemma open_count:
  assumes "state_ok st"
  shows "length (filter is_open (trades st)) = (if in_position st then 1 else 0)"
proof (cases "in_position st")
  case False
  then have "list_all closed (trades st)" using assms by (simp add: state_ok_def)
  then have "filter is_open (trades st) = []"
    by (auto simp: list_all_iff filter_empty_conv closed_not_open)
  with False show ?thesis by simp
next
  case True
  then have ne: "trades st \<noteq> []" and op: "is_open (last (trades st))"
    and cl: "list_all closed (butlast (trades st))"
    using assms by (simp_all add: state_ok_def)
  have "filter is_open (butlast (trades st)) = []"
    using cl by (auto simp: list_all_iff filter_empty_conv closed_not_open)
  moreover have "trades st = butlast (trades st) @ [last (trades st)]"
    using ne by simp
  then have "filter is_open (trades st) =
      filter is_open (butlast (trades st)) @ filter is_open [last (trades st)]"
    by (metis filter_append)
  ultimately show ?thesis using True op by simp
qed

lemma backtest_output_order:
  assumes d: "distinct (map Date (rows df0))" and b: "backtest df0 cap = Inr (ts, s)"
  shows "non_overlapping ts"
proof (cases "length (rows df0) < 2 \<or> \<not> has_Signal df0")
  case True
  then have "backtest df0 cap = Inr ([], zero_summary cap)"
    by (auto simp: backtest_def Let_def ensure_datetime_index_def)
  with b show ?thesis by (simp add: non_overlapping_def)
next
  case False
  define df where "df = ensure_datetime_index df0"
  have len: "length (rows df) = length (rows df0)" and sg: "has_Signal df = has_Signal df0"
    by (simp_all add: df_def ensure_datetime_index_def)
  have n: "length (rows df) - 1 < length (rows df)" using False len by linarith
  have srt: "sorted_wrt (<) (map Date (rows df))"
    unfolding df_def by (rule sorted_index[OF d])
  from loop_upto_order[OF srt n, of cap] obtain st where
    st: "loop_upto df cap (length (rows df) - 1) = Inr st" "state_ok st"
      "non_overlapping (trades st)" "dated_upto (Date (rows df ! (length (rows df) - 1))) (trades st)"
    by blast
  have ne: "rows df \<noteq> []" using n by auto
  have lst: "last (rows df) = rows df ! (length (rows df) - 1)"
    using ne by (rule last_conv_nth)
  from b False st(1) len sg obtain st' where
    fc: "force_close df st = Inr st'" and sm: "summarize (trades st') (capital st') cap = Inr (ts, s)"
    by (auto simp: backtest_def Let_def df_def[symmetric] loop_upto_def split: sum.splits)
  have "non_overlapping (trades st')"
    using force_close_keeps_order[OF st(2) st(3) _ fc] st(4) lst by simp
  then show ?thesis
    using summarize_out[OF sm] completed_keeps_order by simp
qed

text \<open>
  Claim C6: on a series with distinct timestamps, in every state the loop reaches the number
  of open trades is 1 in position and 0 when flat, every trade but the last is closed, and
  the trades do not overlap (each trade exits strictly before the next one is entered); a BUY
  while in position and a SELL while flat leave the state unchanged; and the trades that
  backtest returns do not overlap.
\<close>

theorem single_open_position:
  assumes "distinct (map Date (rows df0))"
    and "df = ensure_datetime_index df0"
    and "k < length (rows df)"
  shows "\<exists>st. loop_upto df cap k = Inr st
       \<and> length (filter is_open (trades st)) = (if in_position st then 1 else 0)
       \<and> list_all closed (butlast (trades st))
       \<and> non_overlapping (trades st)
       \<and> (k + 1 < length (rows df) \<and> normalize_signal (Signal (rows df ! k)) = BUY
            \<and> in_position st \<longrightarrow> step df k st = Inr st)
       \<and> (k + 1 < length (rows df) \<and> normalize_signal (Signal (rows df ! k)) = SELL
            \<and> \<not> in_position st \<longrightarrow> step df k st = Inr st)
       \<and> (\<forall>ts s. backtest df0 cap = Inr (ts, s) \<longrightarrow> non_overlapping ts)"
proof -
  have srt: "sorted_wrt (<) (map Date (rows df))"
    unfolding assms(2) by (rule sorted_index[OF assms(1)])
  from loop_upto_order[OF srt assms(3), of cap] obtain st where
    st: "loop_upto df cap k = Inr st" "state_ok st" "non_overlapping (trades st)"
    by blast
  have cnt: "length (filter is_open (trades st)) = (if in_position st then 1 else 0)"
    by (rule open_count[OF st(2)])
  have cl: "list_all closed (butlast (trades st))"
    using st(2) by (simp add: state_ok_def)
  have nb: "normalize_signal (Signal (rows df ! k)) = BUY \<and> in_position st
              \<longrightarrow> step df k st = Inr st"
    by (simp add: step_cases[OF st(2)] split: option.splits)
  have ns: "normalize_signal (Signal (rows df ! k)) = SELL \<and> \<not> in_position st
              \<longrightarrow> step df k st = Inr st"
    by (simp add: step_cases[OF st(2)] split: option.splits)
  have out: "\<forall>ts s. backtest df0 cap = Inr (ts, s) \<longrightarrow> non_overlapping ts"
    using backtest_output_order[OF assms(1)] by blast
  show ?thesis
    using st(1) st(3) cnt cl nb ns out by blast
qed


theorem single_open_position_witness:
  "distinct (map Date (rows repeat_series))
   \<and> 1 < length (rows (ensure_datetime_index repeat_series))
   \<and> normalize_signal (Signal (rows (ensure_datetime_index repeat_series) ! 1)) = BUY
   \<and> (\<exists>st. loop_upto (ensure_datetime_index repeat_series) 1000 1 = Inr st
          \<and> in_position st \<and> length (filter is_open (trades st)) = 1
          \<and> non_overlapping (trades st)
          \<and> step (ensure_datetime_index repeat_series) 1 st = Inr st)
   \<and> 3 < length (rows (ensure_datetime_index repeat_series))
   \<and> normalize_signal (Signal (rows (ensure_datetime_index repeat_series) ! 3)) = SELL
   \<and> (\<exists>st. loop_upto (ensure_datetime_index repeat_series) 1000 3 = Inr st
          \<and> \<not> in_position st \<and> length (filter is_open (trades st)) = 0
          \<and> step (ensure_datetime_index repeat_series) 3 st = Inr st)
   \<and> non_overlapping (fst (projr (backtest repeat_series 1000)))"
proof -
  let ?df = "ensure_datetime_index repeat_series"
  let ?st = "\<lparr>trades = [new_trade 1 11 (1000 / 11)], in_position = True, entry_price = Some 11,
               entry_qty = Some (1000 / 11), capital = 1000\<rparr>"
  let ?out = "[\<lparr>Entry_Date = 1, Entry_Price = 11, Exit_Date = Some 3, Exit_Price = Some 13,
                 Qty = 1000 / 11, PnL = Some (2000 / 11)\<rparr>]"
  let ?sum = "\<lparr>Final_Capital = 13000 / 11, Total_Trades = 1, Wins = 1, Win_Ratio = 100,
                Total_PnL = 2000 / 11, Return_pct = 1818 / 100\<rparr>"
  have d: "distinct (map Date (rows repeat_series))"
    by (simp add: repeat_series_def mk_frame_def mk_bar_def)
  have h: "1 < length (rows ?df)"
    by (simp add: ensure_datetime_index_def repeat_series_def mk_frame_def)
  have h2: "1 + 1 < length (rows ?df)"
    by (simp add: ensure_datetime_index_def repeat_series_def mk_frame_def)
  have s: "normalize_signal (Signal (rows ?df ! 1)) = BUY"
    by code_simp
  have l: "loop_upto ?df 1000 1 = Inr ?st"
    by code_simp
  have b: "backtest repeat_series 1000 = Inr (?out, ?sum)"
    by code_simp
  from single_open_position[OF d refl h, of 1000] obtain st where
    st: "loop_upto ?df 1000 1 = Inr st"
      "length (filter is_open (trades st)) = (if in_position st then 1 else 0)"
      "non_overlapping (trades st)"
      "1 + 1 < length (rows ?df) \<and> normalize_signal (Signal (rows ?df ! 1)) = BUY
            \<and> in_position st \<longrightarrow> step ?df 1 st = Inr st"
      "\<forall>ts s. backtest repeat_series 1000 = Inr (ts, s) \<longrightarrow> non_overlapping ts"
    by blast
  have eq: "st = ?st" using st(1) l by simp
  have p: "in_position st" using eq by simp
  have c: "length (filter is_open (trades st)) = 1" using st(2) p by simp
  have n: "step ?df 1 st = Inr st" using st(4) h2 s p by blast
  have o: "non_overlapping (fst (projr (backtest repeat_series 1000)))"
    using st(5) b by simp
  let ?st3 = "\<lparr>trades = ?out, in_position = False, entry_price = None, entry_qty = None,
                capital = 13000 / 11\<rparr>"
  have k3: "3 < length (rows ?df)"
    by (simp add: ensure_datetime_index_def repeat_series_def mk_frame_def)
  have k4: "3 + 1 < length (rows ?df)"
    by (simp add: ensure_datetime_index_def repeat_series_def mk_frame_def)
  have s3: "normalize_signal (Signal (rows ?df ! 3)) = SELL"
    by code_simp
  have l3: "loop_upto ?df 1000 3 = Inr ?st3"
    by code_simp
  from single_open_position[OF d refl k3, of 1000] obtain u where
    u: "loop_upto ?df 1000 3 = Inr u"
      "length (filter is_open (trades u)) = (if in_position u then 1 else 0)"
      "3 + 1 < length (rows ?df) \<and> normalize_signal (Signal (rows ?df ! 3)) = SELL
            \<and> \<not> in_position u \<longrightarrow> step ?df 3 u = Inr u"
    by blast
  have equ: "u = ?st3" using u(1) l3 by simp
  have fl: "\<not> in_position u" using equ by simp
  have c3: "length (filter is_open (trades u)) = 0" using u(2) fl by simp
  have n3: "step ?df 3 u = Inr u" using u(3) k4 s3 fl by blast
  have first: "\<exists>st. loop_upto ?df 1000 1 = Inr st
          \<and> in_position st \<and> length (filter is_open (trades st)) = 1
          \<and> non_overlapping (trades st) \<and> step ?df 1 st = Inr st"
    using st(1) p c st(3) n by blast
  have second: "\<exists>st. loop_upto ?df 1000 3 = Inr st
          \<and> \<not> in_position st \<and> length (filter is_open (trades st)) = 0
          \<and> step ?df 3 st = Inr st"
    using u(1) fl c3 n3 by blast
  show ?thesis
    using d h s first k3 s3 second o by blast
qed

subsection \<open>An open trade that cannot be closed\<close>

text \<open>
  Claim C2, as stated, fails: on the three-bar series the loop ends in position with one
  open trade, the last bar has no price, and backtest returns the empty trade list; the open
  trade does not appear in it.
\<close>

theorem open_trade_dropped_counterexample:
  "in_position (projr (loop_upto unclosable_series 1000 2))
   \<and> map Exit_Date (trades (projr (loop_upto unclosable_series 1000 2))) = [None]
   \<and> last_price unclosable_series (last (rows unclosable_series)) = None
   \<and> backtest unclosable_series 1000 =
       Inr ([], \<lparr>Final_Capital = 1000, Total_Trades = 0, Wins = 0, Win_Ratio = 0,
                 Total_PnL = 0, Return_pct = 0\<rparr>)"
  by code_simp

text \<open>
  Claim C2, amended: when the simulation ends with an open position that cannot be
  force-closed (the last bar has neither price), backtest returns exactly the closed trades,
  that is the trade list without its last, open trade; Total Trades, Wins, Win Ratio and
  Total P&L are computed from these closed trades only, and the final capital is the capital
  at the end of the loop.  The initial capital is not zero, since the return divides by it.
\<close>

theorem open_trade_excluded:
  assumes "2 \<le> length (rows df0)" and "has_Signal df0"
    and "df = ensure_datetime_index df0"
    and "loop_upto df cap (length (rows df) - 1) = Inr st"
    and "in_position st"
    and "last_price df (last (rows df)) = None"
    and "cap \<noteq> 0"
  shows "\<exists>ts s. backtest df0 cap = Inr (ts, s)
       \<and> trades st \<noteq> [] \<and> is_open (last (trades st))
       \<and> ts = butlast (trades st) \<and> list_all closed ts
       \<and> Total_Trades s = length ts
       \<and> Wins s = length (filter (\<lambda>t. 0 < pnl_of t) ts)
       \<and> Win_Ratio s = (if ts = [] then 0
                         else round2 (real (Wins s) / real (length ts) * 100))
       \<and> Total_PnL s = sum_list (map pnl_of ts)
       \<and> Final_Capital s = capital st"
proof -
  have ok: "state_ok st" using assms(4) by (rule loop_upto_state_ok)
  have ne: "trades st \<noteq> []" and op: "is_open (last (trades st))"
    and cl: "list_all closed (butlast (trades st))"
    using ok assms(5) by (simp_all add: state_ok_def)
  have len: "length (rows df) = length (rows df0)" and sg: "has_Signal df = has_Signal df0"
    by (simp_all add: assms(3) ensure_datetime_index_def)
  have fc: "force_close df st = Inr (st\<lparr>in_position := False\<rparr>)"
    using assms(5,6) by (simp add: force_close_ok[OF ok])
  have cm: "map fill_pnl (filter is_completed (trades st)) = butlast (trades st)"
    using completed_of_open_state[OF ok assms(5)] map_fill_closed[OF cl] by simp
  have bt: "backtest df0 cap = summarize (trades st) (capital st) cap"
    using assms(1,2,4) fc len sg
    by (simp add: backtest_def Let_def assms(3)[symmetric] loop_upto_def)
  show ?thesis
    unfolding bt summarize_ok[OF assms(7)] Let_def cm
    using ne op cl by simp
qed

theorem open_trade_excluded_witness:
  "2 \<le> length (rows open_tail_series) \<and> has_Signal open_tail_series
   \<and> last_price (ensure_datetime_index open_tail_series)
         (last (rows (ensure_datetime_index open_tail_series))) = None
   \<and> (1000::real) \<noteq> 0
   \<and> (\<exists>st ts s. loop_upto (ensure_datetime_index open_tail_series) 1000
                   (length (rows (ensure_datetime_index open_tail_series)) - 1) = Inr st
          \<and> in_position st \<and> length (trades st) = 2
          \<and> backtest open_tail_series 1000 = Inr (ts, s)
          \<and> ts = butlast (trades st) \<and> length ts = 1 \<and> Total_Trades s = 1)"
proof -
  let ?df = "ensure_datetime_index open_tail_series"
  let ?st = "\<lparr>trades =
        [\<lparr>Entry_Date = 1, Entry_Price = 11, Exit_Date = Some 2,
            Exit_Price = Some 12, Qty = 1000 / 11, PnL = Some (1000 / 11)\<rparr>,
         \<lparr>Entry_Date = 3, Entry_Price = 13, Exit_Date = None,
            Exit_Price = None, Qty = 12000 / 143, PnL = None\<rparr>],
        in_position = True, entry_price = Some 13,
        entry_qty = Some (12000 / 143), capital = 12000 / 11\<rparr>"
  have h1: "2 \<le> length (rows open_tail_series)"
    by (simp add: open_tail_series_def mk_frame_def)
  have h2: "has_Signal open_tail_series"
    by (simp add: open_tail_series_def mk_frame_def)
  have l: "loop_upto ?df 1000 (length (rows ?df) - 1) = Inr ?st"
    by code_simp
  have p: "in_position ?st" by simp
  have lp: "last_price ?df (last (rows ?df)) = None"
    by code_simp
  have nz: "(1000::real) \<noteq> 0" by simp
  from open_trade_excluded[OF h1 h2 refl l p lp nz] obtain ts s where
    "backtest open_tail_series 1000 = Inr (ts, s)" "ts = butlast (trades ?st)"
    "Total_Trades s = length ts"
    by blast
  then show ?thesis
    using h1 h2 lp l by simp
qed

subsection \<open>The multi-ticker driver\<close>

text \<open>The keys of both outputs are the tickers whose frame has at least one row.\<close>

lemma rows_ensure_empty [simp]: "rows (ensure_datetime_index df) = [] \<longleftrightarrow> rows df = []"
proof -
  have "length (rows (ensure_datetime_index df)) = length (rows df)"
    by (simp add: ensure_datetime_index_def)
  then show ?thesis by (metis length_0_conv)
qed

lemma backtest_one_dom:
  "dom (fst (backtest_one ws cap out item)) =
     (if rows (snd item) = [] then dom (fst out) else insert (fst item) (dom (fst out)))
   \<and> dom (snd (backtest_one ws cap out item)) =
     (if rows (snd item) = [] then dom (snd out) else insert (fst item) (dom (snd out)))"
  by (auto simp: backtest_one_def Let_def split: sum.splits prod.splits)

lemma foldl_backtest_one_dom:
  "dom (fst (foldl (backtest_one ws cap) out data)) =
     dom (fst out) \<union> fst ` {x \<in> set data. rows (snd x) \<noteq> []}
   \<and> dom (snd (foldl (backtest_one ws cap) out data)) =
     dom (snd out) \<union> fst ` {x \<in> set data. rows (snd x) \<noteq> []}"
proof (induction data arbitrary: out)
  case Nil
  show ?case by simp
next
  case (Cons x xs)
  show ?case
    using Cons.IH[of "backtest_one ws cap out x"] backtest_one_dom[of ws cap out x]
    by auto
qed

lemma backtest_all_dom:
  "dom (fst (backtest_all ws data cap)) = fst ` {x \<in> set data. rows (snd x) \<noteq> []}
   \<and> dom (snd (backtest_all ws data cap)) = fst ` {x \<in> set data. rows (snd x) \<noteq> []}"
  using foldl_backtest_one_dom[of ws cap "(Map.empty, Map.empty)" data]
  by (simp add: backtest_all_def)

text \<open>
  Claim C1 does not hold of the code: a ticker whose frame has no rows is skipped by the
  \<^verbatim>\<open>continue\<close> of line 234 before anything is stored for it, so for the one-ticker input
  both outputs are empty, and for a two-ticker input with one empty frame both outputs have
  a single key.
\<close>

theorem backtest_all_skips_empty_ticker:
  "backtest_all (\<lambda>d. d - 180) [(''EMPTY'', empty_frame)] 100000 = (Map.empty, Map.empty)
   \<and> dom (fst (backtest_all (\<lambda>d. d - 180)
               [(''EMPTY'', empty_frame), (''GOOD'', example_series)] 100000)) = {''GOOD''}
   \<and> dom (snd (backtest_all (\<lambda>d. d - 180)
               [(''EMPTY'', empty_frame), (''GOOD'', example_series)] 100000)) = {''GOOD''}"
proof -
  have a: "backtest_all (\<lambda>d. d - 180) [(''EMPTY'', empty_frame)] 100000 = (Map.empty, Map.empty)"
    by (simp add: backtest_all_def backtest_one_def empty_frame_def mk_frame_def
        ensure_datetime_index_def)
  have e: "rows empty_frame = []" by (simp add: empty_frame_def mk_frame_def)
  have g: "rows example_series \<noteq> []" by (simp add: example_series_def mk_frame_def)
  have b: "fst ` {x \<in> set [(''EMPTY'', empty_frame), (''GOOD'', example_series)].
                  rows (snd x) \<noteq> []} = {''GOOD''}"
  proof -
    have "{x \<in> set [(''EMPTY'', empty_frame), (''GOOD'', example_series)].
              rows (snd x) \<noteq> []} = {(''GOOD'', example_series)}"
      using e g by auto
    then show ?thesis by simp
  qed
  show ?thesis
    using a backtest_all_dom[of "\<lambda>d. d - 180"
        "[(''EMPTY'', empty_frame), (''GOOD'', example_series)]" 100000]
    unfolding b by simp
qed

end
